theory Spec2Isabelle
  imports Complex_Main
begin

section \<open>Errors and array values\<close>

text \<open>
  The Python exceptions that the modelled functions can raise. A function that may raise
  returns \<open>error + 'a\<close>, with \<open>Inl\<close> for the exception.
\<close>

datatype error =
    IndexError
  | ValueError
  | TypeError
  | MergeError
  | NameError string
  | UnboundLocalError string
  | FileNotFoundError string

definition then_do :: "error + 'a \<Rightarrow> ('a \<Rightarrow> error + 'b) \<Rightarrow> error + 'b" where
  "then_do m f = (case m of Inl e \<Rightarrow> Inl e | Inr x \<Rightarrow> f x)"

text \<open>
  Array elements are IEEE floating-point numbers. The code of this development only
  compares them with the constants \<open>90.0\<close> and \<open>-90.0\<close> and copies them, so a number is
  modelled by its exact value; the special values are kept, since a comparison with NaN
  is false.
\<close>

datatype float64 = NaN | NegInf | Fin real | PosInf

fun flt :: "float64 \<Rightarrow> float64 \<Rightarrow> bool" where
  "flt NaN y = False"
| "flt x NaN = False"
| "flt NegInf NegInf = False"
| "flt NegInf y = True"
| "flt PosInf y = False"
| "flt (Fin a) NegInf = False"
| "flt (Fin a) (Fin b) = (a < b)"
| "flt (Fin a) PosInf = True"

definition fgt :: "float64 \<Rightarrow> float64 \<Rightarrow> bool" where
  "fgt x y = flt y x"

section \<open>The array operations of xarray used by the regridding functions\<close>

text \<open>
  A labelled array is modelled by its values, nested lists in the order of its
  dimensions: a \<open>(j, i)\<close> array is a list of rows, a \<open>(j, i, vertices)\<close> array a list of
  rows of cells. The arrays of xarray are rectangular; on rectangular nested lists the
  operations below return what xarray returns, an \<open>IndexError\<close> included.
\<close>

text \<open>\<open>a.isel(d=-1)\<close> for the leading dimension \<open>d\<close> of \<open>a\<close>.\<close>

definition isel_last :: "'a list \<Rightarrow> error + 'a" where
  "isel_last xs = (if xs = [] then Inl IndexError else Inr (last xs))"

text \<open>\<open>a.isel(i=-1)\<close> for an array \<open>a\<close> of dimensions \<open>(j, i)\<close>.\<close>

definition isel_i_last :: "'a list list \<Rightarrow> error + 'a list" where
  "isel_i_last a =
     (if list_all (\<lambda>row. row \<noteq> []) a then Inr (map last a) else Inl IndexError)"

text \<open>\<open>a.isel(vertices=k)\<close> for an array \<open>a\<close> of dimensions \<open>(j, i, vertices)\<close>.\<close>

definition isel_vertices :: "nat \<Rightarrow> 'a list list list \<Rightarrow> error + 'a list list" where
  "isel_vertices k a =
     (if list_all (list_all (\<lambda>cell. k < length cell)) a
      then Inr (map (map (\<lambda>cell. cell ! k)) a) else Inl IndexError)"

text \<open>
  \<open>xr.concat([a, b], dim='i')\<close> for \<open>a\<close> of dimensions \<open>(j, i)\<close> and \<open>b\<close> of dimension
  \<open>(j)\<close>: \<open>b\<close> becomes one more column. Both come from the same array, so they have
  the same number of rows.
\<close>

definition concat_i :: "'a list list \<Rightarrow> 'a list \<Rightarrow> 'a list list" where
  "concat_i a b = map2 (\<lambda>row x. row @ [x]) a b"

text \<open>\<open>a.isel(j=slice(0, n))\<close>, Python's slice: a negative \<open>n\<close> counts from the end.\<close>

definition slice0 :: "int \<Rightarrow> 'a list \<Rightarrow> 'a list" where
  "slice0 n xs = (if 0 \<le> n then take (nat n) xs else take (length xs - nat (- n)) xs)"

text \<open>
  \<open>a.where(a < 90.0, 90.0)\<close> and \<open>a.where(a > -90.0, -90.0)\<close>, element by element: the
  element is kept where the condition holds and replaced where it does not.
\<close>

definition where_lt_90 :: "float64 \<Rightarrow> float64" where
  "where_lt_90 v = (if flt v (Fin 90) then v else Fin 90)"

definition where_gt_m90 :: "float64 \<Rightarrow> float64" where
  "where_gt_m90 v = (if fgt v (Fin (- 90)) then v else Fin (- 90))"

section \<open>make_bounds\<close>

text \<open>
  The grid dataset read by \<open>make_bounds\<close>. Its variables \<open>lat\<close> and \<open>lon\<close> have the
  dimensions \<open>(j, i)\<close> and its variables \<open>vertices_latitude\<close> and \<open>vertices_longitude\<close>
  the dimensions \<open>(j, i, vertices)\<close>. The variables of one dataset share their dimensions,
  so the dataset is a \<open>(j, i)\<close> array of cells, each with its centre and its vertices, a
  latitude and a longitude for every vertex.

  Of the labels, the dataset records whether \<open>lat\<close> and whether \<open>lon\<close> is a coordinate:
  that is what the code tests and what decides whether its \<open>drop\<close> and its \<open>merge\<close>
  raise. An array taken from the dataset carries the coordinates of the dataset over its
  dimensions, here \<open>lat\<close> and \<open>lon\<close> where they are coordinates. Other coordinates of the
  dataset are not modelled.
\<close>

record cell =
  cell_lat :: float64
  cell_lon :: float64
  cell_vertices :: "(float64 \<times> float64) list"

record grid_ds =
  cells :: "cell list list"
  lat_is_coord :: bool
  lon_is_coord :: bool

definition lat :: "grid_ds \<Rightarrow> float64 list list" where
  "lat ds = map (map cell_lat) (cells ds)"

definition lon :: "grid_ds \<Rightarrow> float64 list list" where
  "lon ds = map (map cell_lon) (cells ds)"

definition vertices_latitude :: "grid_ds \<Rightarrow> float64 list list list" where
  "vertices_latitude ds = map (map (\<lambda>c. map fst (cell_vertices c))) (cells ds)"

definition vertices_longitude :: "grid_ds \<Rightarrow> float64 list list list" where
  "vertices_longitude ds = map (map (\<lambda>c. map snd (cell_vertices c))) (cells ds)"

text \<open>The merged dataset returned by \<open>make_bounds\<close>.\<close>

record geometry =
  lon_model :: "float64 list list"
  lat_model :: "float64 list list"
  lon_b_model :: "float64 list list"
  lat_b_model :: "float64 list list"

text \<open>
  Lines 34 to 37: \<open>ny, nx = ds.lat.shape\<close>, and one row less for the two NorESM2 models
  when \<open>seaice\<close> is set.
\<close>

definition effective_ny :: "string \<Rightarrow> grid_ds \<Rightarrow> bool \<Rightarrow> int" where
  "effective_ny modelname ds seaice =
     (let ny = int (length (lat ds))
      in if modelname \<in> set [''NorESM2-LM'', ''NorESM2-MM''] \<and> seaice then ny - 1 else ny)"

text \<open>
  Lines 44 and 45 (longitude) and 46 and 47 (latitude): the two nested \<open>xr.concat\<close> of
  one vertex array.
\<close>

definition corner_mesh :: "'a list list list \<Rightarrow> error + 'a list list" where
  "corner_mesh v =
     then_do (isel_vertices 0 v) (\<lambda>v0.
     then_do (then_do (isel_vertices 1 v) isel_i_last) (\<lambda>v1.
     then_do (then_do (isel_vertices 3 v) isel_last) (\<lambda>v3.
     then_do (then_do (then_do (isel_vertices 2 v) isel_last) isel_last) (\<lambda>v2.
       Inr (concat_i v0 v1 @ [v3 @ [v2]])))))"

text \<open>
  \<open>a.drop('lon').drop('lat')\<close> for an array \<open>a\<close> of the dataset that carries the
  coordinate \<open>lat\<close>: \<open>drop\<close> raises a \<open>ValueError\<close> for a coordinate that \<open>a\<close> does not
  have, so \<open>lon\<close> must be a coordinate too. The values of \<open>a\<close> stay.
\<close>

definition drop_lon_lat :: "grid_ds \<Rightarrow> 'a \<Rightarrow> error + 'a" where
  "drop_lon_lat ds a = (if lon_is_coord ds then Inr a else Inl ValueError)"

text \<open>
  \<open>make_bounds\<close>, line by line. The renames of the dimensions and of the arrays change
  names only. The test \<open>'lat' in ds.lon.coords\<close> of line 38, and the
  test \<open>'lat' in lon_b_model.coords\<close> of line 49, hold when \<open>lat\<close> is a coordinate of the
  dataset. The \<open>xr.merge\<close> of line 57 turns each array into a dataset and raises a
  \<open>ValueError\<close> for an array that carries a coordinate of its own name: that is
  \<open>lon_model\<close>, named \<open>lon\<close>, when \<open>lon\<close> is a coordinate that was not dropped.
\<close>

definition make_bounds :: "string \<Rightarrow> grid_ds \<Rightarrow> bool \<Rightarrow> error + geometry" where
  "make_bounds modelname ds seaice =
     (let ny = effective_ny modelname ds seaice
      in then_do
           (if lat_is_coord ds
            then then_do (drop_lon_lat ds (slice0 ny (lat ds))) (\<lambda>lat_m.
                 then_do (drop_lon_lat ds (slice0 ny (lon ds))) (\<lambda>lon_m.
                   Inr (lat_m, lon_m)))
            else Inr (slice0 ny (lat ds), slice0 ny (lon ds))) (\<lambda>(lat_m, lon_m).
         then_do (corner_mesh (vertices_longitude ds)) (\<lambda>lon_b.
         then_do (corner_mesh (vertices_latitude ds)) (\<lambda>lat_b.
         then_do
           (if lat_is_coord ds
            then then_do (drop_lon_lat ds (slice0 (ny + 1) lon_b)) (\<lambda>lon_b1.
                 then_do (drop_lon_lat ds (slice0 (ny + 1) lat_b)) (\<lambda>lat_b1.
                   Inr (lon_b1, lat_b1)))
            else Inr (slice0 (ny + 1) lon_b, slice0 (ny + 1) lat_b)) (\<lambda>(lon_b1, lat_b1).
           if \<not> lat_is_coord ds \<and> lon_is_coord ds then Inl ValueError
           else Inr \<lparr>lon_model = lon_m, lat_model = lat_m,
                     lon_b_model = lon_b1,
                     lat_b_model = map (map where_gt_m90) (map (map where_lt_90) lat_b1)\<rparr>)))))"

text \<open>
  A well-formed grid of \<open>R\<close> rows and \<open>C\<close> columns: the array of cells has shape
  \<open>(R, C)\<close>, every cell has four vertices, and no axis is empty. The centre arrays then
  have shape \<open>(R, C)\<close> and the vertex arrays shape \<open>(R, C, 4)\<close>.
\<close>

definition has_shape2 :: "nat \<Rightarrow> nat \<Rightarrow> 'a list list \<Rightarrow> bool" where
  "has_shape2 R C a = (length a = R \<and> list_all (\<lambda>row. length row = C) a)"

definition has_shape3 :: "nat \<Rightarrow> nat \<Rightarrow> nat \<Rightarrow> 'a list list list \<Rightarrow> bool" where
  "has_shape3 R C V a = (length a = R \<and> list_all (has_shape2 C V) a)"

definition wf_grid :: "nat \<Rightarrow> nat \<Rightarrow> grid_ds \<Rightarrow> bool" where
  "wf_grid R C ds =
     (0 < R \<and> 0 < C \<and> has_shape2 R C (cells ds) \<and>
      list_all (list_all (\<lambda>c. length (cell_vertices c) = 4)) (cells ds))"

section \<open>mk_outgrid\<close>

text \<open>
  The regular target grid read by \<open>mk_outgrid\<close>: one-dimensional centres \<open>ds.lat\<close> and
  \<open>ds.lon\<close>, and the bounds arrays \<open>ds.lat_bnds\<close> and \<open>ds.lon_bnds\<close> of dimensions
  \<open>(lat, bnds)\<close> and \<open>(lon, bnds)\<close>. The centres and the bounds of an axis share its
  dimension, so an axis is a list of cells, each with its centre and its bounds. Of the
  labels, the dataset records whether the dimension \<open>bnds\<close> has a coordinate: with one,
  \<open>isel(bnds=0)\<close> and \<open>isel(bnds=1)\<close> leave the scalar coordinates 0 and 1, which
  \<open>xr.concat\<close> turns into a coordinate \<open>bnds\<close> along the concatenated dimension.
\<close>

record target_ds =
  lat_axis :: "(float64 \<times> float64 list) list"
  lon_axis :: "(float64 \<times> float64 list) list"
  bnds_is_coord :: bool

definition t_lat :: "target_ds \<Rightarrow> float64 list" where
  "t_lat ds = map fst (lat_axis ds)"

definition t_lon :: "target_ds \<Rightarrow> float64 list" where
  "t_lon ds = map fst (lon_axis ds)"

definition lat_bnds :: "target_ds \<Rightarrow> float64 list list" where
  "lat_bnds ds = map snd (lat_axis ds)"

definition lon_bnds :: "target_ds \<Rightarrow> float64 list list" where
  "lon_bnds ds = map snd (lon_axis ds)"

record outgrid =
  out_lon :: "float64 list"
  out_lat :: "float64 list"
  lon_b :: "float64 list"
  lat_b :: "float64 list"

text \<open>\<open>a.isel(bnds=k)\<close> for an array \<open>a\<close> of dimensions \<open>(lat, bnds)\<close>.\<close>

definition isel_bnds :: "nat \<Rightarrow> 'a list list \<Rightarrow> error + 'a list" where
  "isel_bnds k a =
     (if list_all (\<lambda>pair. k < length pair) a then Inr (map (\<lambda>pair. pair ! k) a)
      else Inl IndexError)"

text \<open>\<open>a.isel(bnds=k)\<close> for a one-dimensional \<open>a\<close>.\<close>

definition isel_at :: "nat \<Rightarrow> 'a list \<Rightarrow> error + 'a" where
  "isel_at k xs = (if k < length xs then Inr (xs ! k) else Inl IndexError)"

text \<open>Lines 74 and 75: the edge vector of one axis.\<close>

definition edges :: "'a list list \<Rightarrow> error + 'a list" where
  "edges bnds =
     then_do (isel_bnds 0 bnds) (\<lambda>lower.
     then_do (then_do (isel_last bnds) (isel_at 1)) (\<lambda>upper.
       Inr (lower @ [upper])))"

text \<open>
  \<open>mk_outgrid\<close>. The renames of lines 72 to 75 change labels only. The \<open>xr.merge\<close> of
  line 76 raises a \<open>MergeError\<close> when \<open>lat_b\<close> and \<open>lon_b\<close> both carry a coordinate
  \<open>bnds\<close>, one along \<open>y_b\<close> and one along \<open>x_b\<close>.
\<close>

definition mk_outgrid :: "target_ds \<Rightarrow> error + outgrid" where
  "mk_outgrid ds =
     (let lon1 = t_lon ds; lat1 = t_lat ds
      in then_do (edges (lat_bnds ds)) (\<lambda>lat_b1.
         then_do (edges (lon_bnds ds)) (\<lambda>lon_b1.
           if bnds_is_coord ds then Inl MergeError
           else Inr \<lparr>out_lon = lon1, out_lat = lat1, lon_b = lon_b1, lat_b = lat_b1\<rparr>)))"


section \<open>make_regridder\<close>

text \<open>
  A name that is not local to a function is looked up in the module's globals when the
  function runs. The globals of \<open>regrid_functions.py\<close> are the names the module binds:
  its four imports and its three functions.
\<close>

datatype pyobj = Module string | Function string | Str string

definition module_globals :: "string \<rightharpoonup> pyobj" where
  "module_globals = map_of
     [(''xr'', Module ''xarray''), (''xe'', Module ''xesmf''), (''np'', Module ''numpy''),
      (''warnings'', Module ''warnings''), (''make_bounds'', Function ''make_bounds''),
      (''mk_outgrid'', Function ''mk_outgrid''),
      (''make_regridder'', Function ''make_regridder'')]"

definition load_global :: "(string \<rightharpoonup> pyobj) \<Rightarrow> string \<Rightarrow> error + pyobj" where
  "load_global globals name =
     (case globals name of None \<Rightarrow> Inl (NameError name) | Some v \<Rightarrow> Inr v)"

text \<open>
  \<open>make_bounds\<close> compares its first argument with the two model names only; an object
  that is not a string equals neither, as the empty string does.
\<close>

fun as_modelname :: "pyobj \<Rightarrow> string" where
  "as_modelname (Str s) = s"
| "as_modelname v = []"

text \<open>
  \<open>xe.Regridder\<close> belongs to the xesmf library and is a parameter of the model. The
  arguments of a call are evaluated from left to right before the call.
\<close>

definition make_regridder ::
  "(string \<rightharpoonup> pyobj) \<Rightarrow> (geometry \<Rightarrow> 'g \<Rightarrow> string \<Rightarrow> string \<Rightarrow> bool \<Rightarrow> error + 'r) \<Rightarrow>
   grid_ds \<Rightarrow> 'g \<Rightarrow> string \<Rightarrow> string \<Rightarrow> bool \<Rightarrow> error + 'r" where
  "make_regridder globals Regridder ds outgrid grid_weight_path regrid_mode reuse_weights =
     then_do (load_global globals ''modelname'') (\<lambda>modelname.
     then_do (make_bounds (as_modelname modelname) ds False) (\<lambda>ds_in.
       Regridder ds_in outgrid regrid_mode
         (grid_weight_path @ ''model_to_grid_'' @ regrid_mode @ ''.nc'') reuse_weights))"

section \<open>Datasets by name: consistent_naming\<close>

text \<open>
  What \<open>consistent_naming\<close> and \<open>volumeavg_ocn\<close> see of an xarray object: its
  variables (name, dimension names, data), the names of the variables that are
  coordinates, and its attributes. The dimensions of the object are those of its
  variables.
\<close>

datatype attr = AStr string | ANum int

record 'a dataset =
  variables :: "(string \<times> string list \<times> 'a) list"
  coord_names :: "string list"
  attrs :: "(string \<times> attr) list"

definition var_names :: "'a dataset \<Rightarrow> string list" where
  "var_names ds = map fst (variables ds)"

definition dims :: "'a dataset \<Rightarrow> string list" where
  "dims ds = concat (map (\<lambda>v. fst (snd v)) (variables ds))"

text \<open>
  \<open>ds.rename({old: new})\<close>: \<open>old\<close> must be a variable or a dimension; every variable,
  coordinate and dimension called \<open>old\<close> is then called \<open>new\<close>, and a variable name
  that is taken already is a conflict. Both failures are a \<open>ValueError\<close>.
\<close>

definition subst_name :: "string \<Rightarrow> string \<Rightarrow> string \<Rightarrow> string" where
  "subst_name old new n = (if n = old then new else n)"

definition rename :: "string \<Rightarrow> string \<Rightarrow> 'a dataset \<Rightarrow> error + 'a dataset" where
  "rename old new ds =
     (if old \<notin> set (var_names ds) \<and> old \<notin> set (dims ds) then Inl ValueError
      else
        let vars = map (\<lambda>v. (subst_name old new (fst v),
                              map (subst_name old new) (fst (snd v)), snd (snd v)))
                     (variables ds)
        in if distinct (map fst vars)
           then Inr (ds\<lparr>variables := vars,
                         coord_names := map (subst_name old new) (coord_names ds)\<rparr>)
           else Inl ValueError)"

definition consistent_naming :: "'a dataset \<Rightarrow> error + 'a dataset" where
  "consistent_naming ds0 =
     then_do (if ''latitude'' \<in> set (coord_names ds0) \<and> ''lat'' \<notin> set (coord_names ds0)
              then rename ''latitude'' ''lat'' ds0 else Inr ds0) (\<lambda>ds1.
     then_do (if ''longitude'' \<in> set (coord_names ds1) \<and> ''lon'' \<notin> set (coord_names ds1)
              then rename ''longitude'' ''lon'' ds1 else Inr ds1) (\<lambda>ds2.
     then_do (if ''region'' \<in> set (dims ds2)
              then rename ''region'' ''basin'' ds2 else Inr ds2) (\<lambda>ds3.
     then_do (if ''x'' \<in> set (dims ds3) then rename ''x'' ''i'' ds3 else Inr ds3) (\<lambda>ds4.
     then_do (if ''y'' \<in> set (dims ds4) then rename ''y'' ''j'' ds4 else Inr ds4) (\<lambda>ds5.
     then_do (if ''depth'' \<in> set (dims ds5)
              then rename ''depth'' ''lev'' ds5 else Inr ds5) (\<lambda>ds6.
     then_do (if ''bounds'' \<in> set (dims ds6)
              then rename ''bounds'' ''bnds'' ds6 else Inr ds6) (\<lambda>ds7.
       Inr ds7)))))))"

text \<open>A dataset that uses the canonical names: no test of \<open>consistent_naming\<close> holds.\<close>

definition canonical :: "'a dataset \<Rightarrow> bool" where
  "canonical ds =
     (\<not> (''latitude'' \<in> set (coord_names ds) \<and> ''lat'' \<notin> set (coord_names ds)) \<and>
      \<not> (''longitude'' \<in> set (coord_names ds) \<and> ''lon'' \<notin> set (coord_names ds)) \<and>
      ''region'' \<notin> set (dims ds) \<and> ''x'' \<notin> set (dims ds) \<and> ''y'' \<notin> set (dims ds) \<and>
      ''depth'' \<notin> set (dims ds) \<and> ''bounds'' \<notin> set (dims ds))"

section \<open>get_areacello and volumeavg_ocn\<close>

text \<open>
  The file system and the arithmetic of xarray are parameters: \<open>open_dataset\<close> is
  \<open>xr.open_dataset\<close>; \<open>blom_weight\<close> and \<open>cmor_weight\<close> are the weights
  \<open>get_areacello\<close> computes from the datasets it opened; \<open>mul_sum_sigma\<close> is
  \<open>(ds*dp).sum(dim='sigma')\<close>, \<open>sum_sigma\<close> is \<open>dp.sum(dim='sigma')\<close> and \<open>weighted_avg\<close>
  the quotient of the two weighted sums.
\<close>

record 'a xarray_ops =
  open_dataset :: "string \<Rightarrow> error + 'a dataset"
  blom_weight :: "'a dataset \<Rightarrow> error + 'a dataset"
  cmor_weight :: "'a dataset \<Rightarrow> 'a dataset \<Rightarrow> error + 'a dataset"
  mul_sum_sigma :: "'a dataset \<Rightarrow> 'a dataset \<Rightarrow> error + 'a dataset"
  sum_sigma :: "'a dataset \<Rightarrow> error + 'a dataset"
  weighted_avg :: "'a dataset \<Rightarrow> 'a dataset \<Rightarrow> 'a dataset \<Rightarrow> error + 'a dataset"

definition grid_path :: string where
  "grid_path = ''/cluster/shared/noresm/inputdata/ocn/blom/grid/grid_tnx1v4_20170622.nc''"

definition areacello_path :: string where
  "areacello_path = ''/projects/NS9034K/CMIP6/CMIP/NCC/NorESM2-MM/piControl/r1i1p1f1/Ofx/areacello/gn/latest/areacello_Ofx_NorESM2-MM_piControl_r1i1p1f1_gn.nc''"

definition sftof_path :: string where
  "sftof_path = ''/projects/NS9034K/CMIP6/CMIP/NCC/NorESM2-MM/piControl/r1i1p1f1/Ofx/sftof/gn/latest/sftof_Ofx_NorESM2-MM_piControl_r1i1p1f1_gn.nc''"

definition get_areacello :: "'a xarray_ops \<Rightarrow> bool \<Rightarrow> error + 'a dataset" where
  "get_areacello ops cmor =
     then_do
       (if \<not> cmor
        then then_do (open_dataset ops grid_path) (blom_weight ops)
        else then_do (open_dataset ops areacello_path) (\<lambda>area.
             then_do (open_dataset ops sftof_path) (\<lambda>mask. cmor_weight ops area mask)))
       consistent_naming"

text \<open>
  A local variable that is assigned on one path only is unbound on the others: \<open>ds_out\<close>
  is \<open>None\<close> until the \<open>sigma\<close> branch assigns it. In
  \<open>ds_out.attrs[k] = e\<close> the expression \<open>e\<close> is evaluated before \<open>ds_out\<close> is read.
  The test \<open>k in ds.attrs\<close> and the read \<open>ds.k\<close> are one look-up in the attributes.
\<close>

definition set_attr :: "string \<Rightarrow> attr \<Rightarrow> 'a dataset \<Rightarrow> 'a dataset" where
  "set_attr k v ds = ds\<lparr>attrs := (k, v) # filter (\<lambda>kv. fst kv \<noteq> k) (attrs ds)\<rparr>"

definition str_add :: "string \<Rightarrow> attr \<Rightarrow> error + attr" where
  "str_add s v = (case v of AStr t \<Rightarrow> Inr (AStr (s @ t)) | ANum n \<Rightarrow> Inl TypeError)"

definition store_attr :: "string \<Rightarrow> attr \<Rightarrow> 'a dataset option \<Rightarrow> error + 'a dataset option" where
  "store_attr k v ds_out =
     (case ds_out of None \<Rightarrow> Inl (UnboundLocalError ''ds_out'')
      | Some d \<Rightarrow> Inr (Some (set_attr k v d)))"

definition volumeavg_ocn ::
  "'a xarray_ops \<Rightarrow> 'a dataset \<Rightarrow> 'a dataset \<Rightarrow> 'a dataset option \<Rightarrow> bool \<Rightarrow> error + 'a dataset" where
  "volumeavg_ocn ops ds0 dp pweight0 cmor =
     then_do (case pweight0 of Some w \<Rightarrow> Inr w | None \<Rightarrow> get_areacello ops cmor) (\<lambda>pweight.
     then_do
       (if ''sigma'' \<in> set (coord_names ds0)
        then then_do (mul_sum_sigma ops ds0 dp) (\<lambda>ds1.
             then_do (sum_sigma ops dp) (\<lambda>dpweight.
             then_do (weighted_avg ops pweight ds1 dpweight) (\<lambda>out.
               Inr (ds1, Some out))))
        else Inr (ds0, None)) (\<lambda>(ds, out0).
     then_do
       (case map_of (attrs ds) ''long_name'' of None \<Rightarrow> Inr out0
        | Some long_name \<Rightarrow>
            then_do (str_add ''Volume averaged '' long_name)
              (\<lambda>v. store_attr ''long_name'' v out0)) (\<lambda>out1.
     then_do
       (case map_of (attrs ds) ''units'' of None \<Rightarrow> Inr out1
        | Some units \<Rightarrow> store_attr ''units'' units out1) (\<lambda>out2.
     then_do
       (case map_of (attrs ds) ''standard_name'' of None \<Rightarrow> Inr out2
        | Some standard_name \<Rightarrow> store_attr ''standard_name'' standard_name out2) (\<lambda>out3.
       (case out3 of None \<Rightarrow> Inl (UnboundLocalError ''ds_out'') | Some d \<Rightarrow> Inr d))))))"

section \<open>Properties stated by the specification, and example inputs\<close>

text \<open>
  A grid of 385 rows and 2 columns, all cells alike: the row count of the NorESM2 ocean
  grid. Its \<open>lat\<close> and \<open>lon\<close> are data variables.
\<close>

definition ds385 :: grid_ds where
  "ds385 = \<lparr>cells = replicate 385
       [\<lparr>cell_lat = Fin 0, cell_lon = Fin 0,
          cell_vertices = [(Fin 0, Fin 0), (Fin 0, Fin 1), (Fin 1, Fin 1), (Fin 1, Fin 0)]\<rparr>,
        \<lparr>cell_lat = Fin 0, cell_lon = Fin 0,
          cell_vertices = [(Fin 0, Fin 0), (Fin 0, Fin 1), (Fin 1, Fin 1), (Fin 1, Fin 0)]\<rparr>],
     lat_is_coord = False, lon_is_coord = False\<rparr>"

text \<open>
  The corner mesh \<open>m\<close> of a vertex array \<open>v\<close> of \<open>R\<close> rows and \<open>C\<close> columns, as the
  specification describes it: vertex 0 of every cell, one more column from vertex 1 of the
  last column, and one more row from vertex 3 of the last row, closed by vertex 2 of the
  last cell.
\<close>

definition assembled :: "nat \<Rightarrow> nat \<Rightarrow> 'a list list list \<Rightarrow> 'a list list \<Rightarrow> bool" where
  "assembled R C v m =
     (length m = R + 1 \<and>
      (\<forall>r\<in>{0..<R}. length (m ! r) = C + 1 \<and> (\<forall>c\<in>{0..<C}. m ! r ! c = v ! r ! c ! 0) \<and>
              m ! r ! C = v ! r ! (C - 1) ! 1) \<and>
      length (m ! R) = C + 1 \<and> (\<forall>c\<in>{0..<C}. m ! R ! c = v ! (R - 1) ! c ! 3) \<and>
      m ! R ! C = v ! (R - 1) ! (C - 1) ! 2)"

text \<open>
  A latitude in \<open>[-90, 90]\<close>: a number, neither NaN nor infinite.
\<close>

definition in_polar_range :: "float64 \<Rightarrow> bool" where
  "in_polar_range v = (case v of Fin x \<Rightarrow> - 90 \<le> x \<and> x \<le> 90 | _ \<Rightarrow> False)"

text \<open>
  A grid of 2 rows and 2 columns whose last row has corner latitudes beyond the pole and
  one NaN. Its \<open>lat\<close> and \<open>lon\<close> are data variables; in \<open>grid22_coords\<close> both are
  coordinates.
\<close>

definition grid22 :: grid_ds where
  "grid22 = \<lparr>cells =
       [[\<lparr>cell_lat = Fin 10, cell_lon = Fin 5,
           cell_vertices = [(Fin 0, Fin 0), (Fin 0, Fin 10), (Fin 20, Fin 10), (Fin 20, Fin 0)]\<rparr>,
         \<lparr>cell_lat = Fin 10, cell_lon = Fin 15,
           cell_vertices = [(Fin 0, Fin 10), (Fin 0, Fin 20), (Fin 20, Fin 20), (Fin 20, Fin 10)]\<rparr>],
        [\<lparr>cell_lat = Fin 89, cell_lon = Fin 5,
           cell_vertices = [(Fin 20, Fin 0), (Fin 20, Fin 10), (Fin 91, Fin 10), (Fin 93, Fin 0)]\<rparr>,
         \<lparr>cell_lat = Fin 89, cell_lon = Fin 15,
           cell_vertices = [(Fin 20, Fin 10), (Fin 20, Fin 20), (NaN, Fin 20), (Fin (- 95), Fin 10)]\<rparr>]],
     lat_is_coord = False, lon_is_coord = False\<rparr>"

definition grid22_coords :: grid_ds where
  "grid22_coords = grid22\<lparr>lat_is_coord := True, lon_is_coord := True\<rparr>"

text \<open>
  The edge vector \<open>e\<close> of a bounds array, as the specification describes it: the lower
  bound of every cell, then the upper bound of the last cell.
\<close>

definition edge_vector :: "'a list list \<Rightarrow> 'a list \<Rightarrow> bool" where
  "edge_vector bnds e =
     (length e = length bnds + 1 \<and> (\<forall>k\<in>{0..<length bnds}. e ! k = bnds ! k ! 0) \<and>
      e ! length bnds = bnds ! (length bnds - 1) ! 1)"

text \<open>
  Two regular target grids of two cells per axis, without a coordinate for \<open>bnds\<close>: one
  with ordered bounds, one whose pairs are reversed or empty intervals.
\<close>

definition target_ok :: target_ds where
  "target_ok = \<lparr>lat_axis = [(Fin (- 45), [Fin (- 90), Fin 0]), (Fin 45, [Fin 0, Fin 90])],
     lon_axis = [(Fin 90, [Fin 0, Fin 180]), (Fin 270, [Fin 180, Fin 360])],
     bnds_is_coord = False\<rparr>"



text \<open>
  A dataset with the names of the raw model output, and the same dataset with the names
  of the CMOR convention.
\<close>

definition ds_raw :: "nat dataset" where
  "ds_raw = \<lparr>variables =
       [(''latitude'', [''y'', ''x''], 1), (''longitude'', [''y'', ''x''], 2),
        (''depth'', [''depth''], 3), (''depth_bnds'', [''depth'', ''bounds''], 4),
        (''region'', [''region''], 5), (''temp'', [''region'', ''depth'', ''y'', ''x''], 6)],
     coord_names = [''latitude'', ''longitude'', ''depth'', ''region''],
     attrs = [(''long_name'', AStr ''Ocean temperature''), (''units'', AStr ''degC'')]\<rparr>"

definition ds_cmor :: "nat dataset" where
  "ds_cmor = \<lparr>variables =
       [(''lat'', [''j'', ''i''], 1), (''lon'', [''j'', ''i''], 2),
        (''lev'', [''lev''], 3), (''depth_bnds'', [''lev'', ''bnds''], 4),
        (''basin'', [''basin''], 5), (''temp'', [''basin'', ''lev'', ''j'', ''i''], 6)],
     coord_names = [''lat'', ''lon'', ''lev'', ''basin''],
     attrs = [(''long_name'', AStr ''Ocean temperature''), (''units'', AStr ''degC'')]\<rparr>"

text \<open>
  A field on depth levels, without a \<open>sigma\<close> coordinate; the same field with a numeric
  \<open>long_name\<close>; an area weight; and an environment in which no file can be opened.
\<close>

definition field_no_sigma :: "nat dataset" where
  "field_no_sigma = \<lparr>variables = [(''thetao'', [''lev'', ''j'', ''i''], 1), (''lev'', [''lev''], 2)],
     coord_names = [''lev''],
     attrs = [(''long_name'', AStr ''Sea Water Potential Temperature''), (''units'', AStr ''degC'')]\<rparr>"

definition field_numeric_name :: "nat dataset" where
  "field_numeric_name = field_no_sigma\<lparr>attrs := [(''long_name'', ANum 7)]\<rparr>"

definition weight_field :: "nat dataset" where
  "weight_field = \<lparr>variables = [(''areacello'', [''j'', ''i''], 3)], coord_names = [], attrs = []\<rparr>"

definition no_files :: "nat xarray_ops" where
  "no_files = \<lparr>open_dataset = (\<lambda>path. Inl (FileNotFoundError path)),
     blom_weight = Inr, cmor_weight = (\<lambda>area mask. Inr area),
     mul_sum_sigma = (\<lambda>ds dp. Inr (ds\<lparr>attrs := []\<rparr>)), sum_sigma = Inr,
     weighted_avg = (\<lambda>pweight ds dpweight. Inr ds)\<rparr>"

section \<open>Basic facts\<close>

lemma then_do_Inr [simp]: "then_do (Inr x) f = f x"
  by (simp add: then_do_def)

lemma then_do_Inl [simp]: "then_do (Inl e) f = Inl e"
  by (simp add: then_do_def)

lemma then_do_eq_Inr: "then_do m f = Inr y \<longleftrightarrow> (\<exists>x. m = Inr x \<and> f x = Inr y)"
  by (cases m) simp_all

lemma map2_same: "map2 h (map f xs) (map g xs) = map (\<lambda>x. h (f x) (g x)) xs"
  by (induction xs) simp_all

lemma map2_replicate: "map2 f (replicate n x) (replicate n y) = replicate n (f x y)"
  by (induction n) simp_all

lemma list_all_cells_mono:
  "list_all (list_all (\<lambda>cell. n < length cell)) v \<Longrightarrow> k \<le> n \<Longrightarrow>
   list_all (list_all (\<lambda>cell. k < length (cell :: 'a list))) v"
  by (fastforce simp: list_all_iff)

section \<open>Lemmas on make_bounds\<close>

lemma isel_vertices_ok:
  "list_all (list_all (\<lambda>cell. 3 < length cell)) v \<Longrightarrow> k \<le> 3 \<Longrightarrow>
   isel_vertices k v = Inr (map (map (\<lambda>cell. cell ! k)) v)"
  using list_all_cells_mono [of 3 v k] by (simp add: isel_vertices_def)

lemma isel_i_last_map:
  "list_all (\<lambda>row. row \<noteq> []) v \<Longrightarrow>
   isel_i_last (map (map f) v) = Inr (map (\<lambda>row. f (last row)) v)"
  by (auto simp: isel_i_last_def list_all_iff last_map)

lemma isel_last_map: "v \<noteq> [] \<Longrightarrow> isel_last (map f v) = Inr (f (last v))"
  by (simp add: isel_last_def last_map)

lemma corner_mesh_eq:
  assumes v: "v \<noteq> []" and r: "list_all (\<lambda>row. row \<noteq> []) v"
    and c: "list_all (list_all (\<lambda>cell. 3 < length cell)) v"
  shows "corner_mesh v =
     Inr (map (\<lambda>row. map (\<lambda>cell. cell ! 0) row @ [last row ! 1]) v @
          [map (\<lambda>cell. cell ! 3) (last v) @ [last (last v) ! 2]])"
proof -
  have l: "last v \<noteq> []" using v r by (simp add: list_all_iff)
  have v0: "isel_vertices 0 v = Inr (map (map (\<lambda>cell. cell ! 0)) v)"
    by (rule isel_vertices_ok [OF c]) simp
  have v1: "then_do (isel_vertices 1 v) isel_i_last = Inr (map (\<lambda>row. last row ! 1) v)"
    by (simp only: isel_vertices_ok [OF c, of 1] then_do_Inr isel_i_last_map [OF r])
  have v3: "then_do (isel_vertices 3 v) isel_last = Inr (map (\<lambda>cell. cell ! 3) (last v))"
    by (simp only: isel_vertices_ok [OF c, of 3] then_do_Inr isel_last_map [OF v])
  have v2: "then_do (then_do (isel_vertices 2 v) isel_last) isel_last = Inr (last (last v) ! 2)"
    by (simp only: isel_vertices_ok [OF c, of 2] then_do_Inr isel_last_map [OF v]
        isel_last_map [OF l])
  show ?thesis
    unfolding corner_mesh_def v0 v1 v2 v3 then_do_Inr concat_i_def map2_same ..
qed

lemma shape3_ok:
  assumes "has_shape3 R C 4 v" and "0 < R" and "0 < C"
  shows "v \<noteq> []" and "list_all (\<lambda>row. row \<noteq> []) v"
    and "list_all (list_all (\<lambda>cell. 3 < length cell)) v"
  using assms by (auto simp: has_shape3_def has_shape2_def list_all_iff)

lemma corner_mesh_assembled:
  assumes s: "has_shape3 R C 4 v" and R: "0 < R" and C: "0 < C"
  shows "\<exists>m. corner_mesh v = Inr m \<and> assembled R C v m \<and> has_shape2 (R + 1) (C + 1) m"
proof -
  let ?m = "map (\<lambda>row. map (\<lambda>cell. cell ! 0) row @ [last row ! 1]) v @
          [map (\<lambda>cell. cell ! 3) (last v) @ [last (last v) ! 2]]"
  have e: "corner_mesh v = Inr ?m"
    using corner_mesh_eq [OF shape3_ok [OF s R C]] .
  have len: "length v = R" using s by (simp add: has_shape3_def)
  have rows: "\<And>r. r < R \<Longrightarrow> length (v ! r) = C"
    using s by (auto simp: has_shape3_def has_shape2_def list_all_length)
  have lastv: "last v = v ! (R - 1)" using len R by (cases v rule: rev_cases) (auto simp: nth_append)
  have lastrow: "\<And>r. r < R \<Longrightarrow> last (v ! r) = v ! r ! (C - 1)"
    using rows C by (metis last_conv_nth length_greater_0_conv)
  have a: "assembled R C v ?m"
    unfolding assembled_def using len rows lastv lastrow R C
    by (auto simp: nth_append)
  have sh: "has_shape2 (R + 1) (C + 1) ?m"
    using len rows lastv R by (auto simp: has_shape2_def list_all_length nth_append)
  from e a sh show ?thesis by blast
qed

lemma slice0_shape:
  "has_shape2 R C a \<Longrightarrow> 0 \<le> n \<Longrightarrow> n \<le> int R \<Longrightarrow> has_shape2 (nat n) C (slice0 n a)"
  by (auto simp: has_shape2_def slice0_def list_all_length)

lemma map_map_shape: "has_shape2 R C a \<Longrightarrow> has_shape2 R C (map (map f) a)"
  by (auto simp: has_shape2_def list_all_length)

lemma wf_grid_shapes:
  assumes "wf_grid R C ds"
  shows "0 < R" and "0 < C"
    and "has_shape2 R C (lat ds)" and "has_shape2 R C (lon ds)"
    and "has_shape3 R C 4 (vertices_latitude ds)"
    and "has_shape3 R C 4 (vertices_longitude ds)"
  using assms
  by (auto simp: wf_grid_def has_shape2_def has_shape3_def lat_def lon_def
      vertices_latitude_def vertices_longitude_def list_all_iff)

lemma effective_ny_bounds:
  "wf_grid R C ds \<Longrightarrow>
   0 \<le> effective_ny modelname ds seaice \<and> effective_ny modelname ds seaice \<le> int R"
  by (auto simp: wf_grid_def has_shape2_def effective_ny_def lat_def Let_def)

lemma make_bounds_Inr_iff:
  "make_bounds modelname ds seaice = Inr g \<longleftrightarrow>
     lat_is_coord ds = lon_is_coord ds \<and>
     (\<exists>mlon mlat. corner_mesh (vertices_longitude ds) = Inr mlon \<and>
        corner_mesh (vertices_latitude ds) = Inr mlat \<and>
        g = \<lparr>lon_model = slice0 (effective_ny modelname ds seaice) (lon ds),
          lat_model = slice0 (effective_ny modelname ds seaice) (lat ds),
          lon_b_model = slice0 (effective_ny modelname ds seaice + 1) mlon,
          lat_b_model = map (map where_gt_m90) (map (map where_lt_90)
             (slice0 (effective_ny modelname ds seaice + 1) mlat))\<rparr>)"
  by (cases "lat_is_coord ds"; cases "lon_is_coord ds")
    (auto simp: make_bounds_def Let_def then_do_eq_Inr drop_lon_lat_def)

text \<open>
  What a call that returns has returned, on a well-formed grid: the first \<open>ny\<close> rows of
  the centres and the first \<open>ny + 1\<close> rows of the two assembled meshes, the latitudes
  clamped.
\<close>

lemma make_bounds_returned:
  assumes ret: "make_bounds modelname ds seaice = Inr g" and wf: "wf_grid R C ds"
  obtains mlat mlon where "corner_mesh (vertices_latitude ds) = Inr mlat"
    and "corner_mesh (vertices_longitude ds) = Inr mlon"
    and "assembled R C (vertices_latitude ds) mlat"
    and "assembled R C (vertices_longitude ds) mlon"
    and "has_shape2 (R + 1) (C + 1) mlat" and "has_shape2 (R + 1) (C + 1) mlon"
    and "lat_model g = slice0 (effective_ny modelname ds seaice) (lat ds)"
    and "lon_model g = slice0 (effective_ny modelname ds seaice) (lon ds)"
    and "lon_b_model g = slice0 (effective_ny modelname ds seaice + 1) mlon"
    and "lat_b_model g = map (map where_gt_m90) (map (map where_lt_90)
           (slice0 (effective_ny modelname ds seaice + 1) mlat))"
proof -
  note s = wf_grid_shapes [OF wf]
  from corner_mesh_assembled [OF s(6) s(1) s(2)] obtain mlon
    where mlon: "corner_mesh (vertices_longitude ds) = Inr mlon"
      "assembled R C (vertices_longitude ds) mlon" "has_shape2 (R + 1) (C + 1) mlon"
    by blast
  from corner_mesh_assembled [OF s(5) s(1) s(2)] obtain mlat
    where mlat: "corner_mesh (vertices_latitude ds) = Inr mlat"
      "assembled R C (vertices_latitude ds) mlat" "has_shape2 (R + 1) (C + 1) mlat"
    by blast
  from ret mlon(1) mlat(1)
  have "g = \<lparr>lon_model = slice0 (effective_ny modelname ds seaice) (lon ds),
          lat_model = slice0 (effective_ny modelname ds seaice) (lat ds),
          lon_b_model = slice0 (effective_ny modelname ds seaice + 1) mlon,
          lat_b_model = map (map where_gt_m90) (map (map where_lt_90)
             (slice0 (effective_ny modelname ds seaice + 1) mlat))\<rparr>"
    unfolding make_bounds_Inr_iff by auto
  with mlon mlat that show thesis by simp
qed

lemma make_bounds_shapes:
  assumes ret: "make_bounds modelname ds seaice = Inr g" and wf: "wf_grid R C ds"
  shows "int (length (lat_model g)) = effective_ny modelname ds seaice \<and>
     has_shape2 (length (lat_model g)) C (lat_model g) \<and>
     has_shape2 (length (lat_model g)) C (lon_model g) \<and>
     has_shape2 (length (lat_model g) + 1) (C + 1) (lat_b_model g) \<and>
     has_shape2 (length (lat_model g) + 1) (C + 1) (lon_b_model g)"
proof -
  let ?ny = "effective_ny modelname ds seaice"
  note s = wf_grid_shapes [OF wf]
  from make_bounds_returned [OF ret wf] obtain mlat mlon
    where shlat: "has_shape2 (R + 1) (C + 1) mlat" and shlon: "has_shape2 (R + 1) (C + 1) mlon"
      and g: "lat_model g = slice0 ?ny (lat ds)" "lon_model g = slice0 ?ny (lon ds)"
        "lon_b_model g = slice0 (?ny + 1) mlon"
        "lat_b_model g = map (map where_gt_m90) (map (map where_lt_90) (slice0 (?ny + 1) mlat))"
    by blast
  from effective_ny_bounds [OF wf] have ny: "0 \<le> ?ny" "?ny \<le> int R" by simp_all
  have n1: "nat (?ny + 1) = nat ?ny + 1" using ny by simp
  have a: "has_shape2 (nat ?ny) C (slice0 ?ny (lat ds))"
    by (rule slice0_shape [OF s(3) ny])
  have b: "has_shape2 (nat ?ny) C (slice0 ?ny (lon ds))"
    by (rule slice0_shape [OF s(4) ny])
  have c: "has_shape2 (nat ?ny + 1) (C + 1) (slice0 (?ny + 1) mlon)"
    using slice0_shape [OF shlon, of "?ny + 1"] ny n1 by simp
  have d: "has_shape2 (nat ?ny + 1) (C + 1) (slice0 (?ny + 1) mlat)"
    using slice0_shape [OF shlat, of "?ny + 1"] ny n1 by simp
  have len: "length (slice0 ?ny (lat ds)) = nat ?ny"
    using a by (simp add: has_shape2_def)
  show ?thesis
    unfolding g using a b c map_map_shape [OF map_map_shape [OF d]] ny len by simp
qed

lemma clamp_cases:
  "in_polar_range (where_gt_m90 (where_lt_90 u)) \<and>
   (fgt u (Fin 90) \<longrightarrow> where_gt_m90 (where_lt_90 u) = Fin 90) \<and>
   (flt u (Fin (- 90)) \<longrightarrow> where_gt_m90 (where_lt_90 u) = Fin (- 90)) \<and>
   (fgt u (Fin (- 90)) \<and> flt u (Fin 90) \<longrightarrow> where_gt_m90 (where_lt_90 u) = u)"
  by (cases u) (auto simp: where_gt_m90_def where_lt_90_def fgt_def in_polar_range_def)

text \<open>
  The two mixed labellings raise: with \<open>lat\<close> a coordinate and \<open>lon\<close> a data variable
  the \<open>drop('lon')\<close> of line 39 fails before anything else; with \<open>lon\<close> a coordinate
  and \<open>lat\<close> a data variable the call cannot return, and on a well-formed grid it is
  the \<open>xr.merge\<close> of line 57 that fails.
\<close>

lemma make_bounds_lat_coord_only:
  "lat_is_coord ds \<Longrightarrow> \<not> lon_is_coord ds \<Longrightarrow>
   make_bounds modelname ds seaice = Inl ValueError"
  by (simp add: make_bounds_def drop_lon_lat_def Let_def)

lemma make_bounds_lon_coord_only:
  assumes "\<not> lat_is_coord ds" and "lon_is_coord ds" and wf: "wf_grid R C ds"
  shows "make_bounds modelname ds seaice = Inl ValueError"
proof -
  note s = wf_grid_shapes [OF wf]
  from corner_mesh_assembled [OF s(6) s(1) s(2)] obtain mlon
    where "corner_mesh (vertices_longitude ds) = Inr mlon" by blast
  moreover from corner_mesh_assembled [OF s(5) s(1) s(2)] obtain mlat
    where "corner_mesh (vertices_latitude ds) = Inr mlat" by blast
  ultimately show ?thesis using assms(1,2)
    by (simp add: make_bounds_def Let_def)
qed

text \<open>The example grids, evaluated.\<close>

lemma wf_grid22: "wf_grid 2 2 grid22"
  by (simp add: wf_grid_def has_shape2_def grid22_def)

lemma wf_grid22_coords: "wf_grid 2 2 grid22_coords"
  by (simp add: wf_grid_def has_shape2_def grid22_def grid22_coords_def)

lemma corner_mesh_lat_grid22:
  "corner_mesh (vertices_latitude grid22) =
     Inr [[Fin 0, Fin 0, Fin 0], [Fin 20, Fin 20, Fin 20], [Fin 93, Fin (- 95), NaN]]"
  by (simp add: grid22_def vertices_latitude_def corner_mesh_def isel_vertices_def
      isel_i_last_def isel_last_def concat_i_def)

lemma corner_mesh_lon_grid22:
  "corner_mesh (vertices_longitude grid22) =
     Inr [[Fin 0, Fin 10, Fin 20], [Fin 0, Fin 10, Fin 20], [Fin 0, Fin 10, Fin 20]]"
  by (simp add: grid22_def vertices_longitude_def corner_mesh_def isel_vertices_def
      isel_i_last_def isel_last_def concat_i_def)

lemma make_bounds_grid22_LM:
  "make_bounds ''NorESM2-LM'' grid22 False =
     Inr \<lparr>lon_model = [[Fin 5, Fin 15], [Fin 5, Fin 15]],
          lat_model = [[Fin 10, Fin 10], [Fin 89, Fin 89]],
          lon_b_model = [[Fin 0, Fin 10, Fin 20], [Fin 0, Fin 10, Fin 20], [Fin 0, Fin 10, Fin 20]],
          lat_b_model = [[Fin 0, Fin 0, Fin 0], [Fin 20, Fin 20, Fin 20],
                         [Fin 90, Fin (- 90), Fin 90]]\<rparr>"
  by (simp add: make_bounds_def effective_ny_def grid22_def lat_def lon_def
      vertices_latitude_def vertices_longitude_def corner_mesh_def isel_vertices_def
      isel_i_last_def isel_last_def concat_i_def slice0_def Let_def drop_lon_lat_def
      where_gt_m90_def where_lt_90_def fgt_def)

lemma make_bounds_grid22_LM_seaice:
  "make_bounds ''NorESM2-LM'' grid22 True =
     Inr \<lparr>lon_model = [[Fin 5, Fin 15]], lat_model = [[Fin 10, Fin 10]],
          lon_b_model = [[Fin 0, Fin 10, Fin 20], [Fin 0, Fin 10, Fin 20]],
          lat_b_model = [[Fin 0, Fin 0, Fin 0], [Fin 20, Fin 20, Fin 20]]\<rparr>"
  by (simp add: make_bounds_def effective_ny_def grid22_def lat_def lon_def
      vertices_latitude_def vertices_longitude_def corner_mesh_def isel_vertices_def
      isel_i_last_def isel_last_def concat_i_def slice0_def Let_def drop_lon_lat_def
      where_gt_m90_def where_lt_90_def fgt_def)

lemma make_bounds_grid22_coords_MM_seaice:
  "make_bounds ''NorESM2-MM'' grid22_coords True =
     Inr \<lparr>lon_model = [[Fin 5, Fin 15]], lat_model = [[Fin 10, Fin 10]],
          lon_b_model = [[Fin 0, Fin 10, Fin 20], [Fin 0, Fin 10, Fin 20]],
          lat_b_model = [[Fin 0, Fin 0, Fin 0], [Fin 20, Fin 20, Fin 20]]\<rparr>"
  by (simp add: make_bounds_def effective_ny_def grid22_def grid22_coords_def lat_def lon_def
      vertices_latitude_def vertices_longitude_def corner_mesh_def isel_vertices_def
      isel_i_last_def isel_last_def concat_i_def slice0_def Let_def drop_lon_lat_def
      where_gt_m90_def where_lt_90_def fgt_def)

lemma make_bounds_grid22_CESM2:
  "make_bounds ''CESM2'' grid22 False =
     Inr \<lparr>lon_model = [[Fin 5, Fin 15], [Fin 5, Fin 15]],
          lat_model = [[Fin 10, Fin 10], [Fin 89, Fin 89]],
          lon_b_model = [[Fin 0, Fin 10, Fin 20], [Fin 0, Fin 10, Fin 20], [Fin 0, Fin 10, Fin 20]],
          lat_b_model = [[Fin 0, Fin 0, Fin 0], [Fin 20, Fin 20, Fin 20],
                         [Fin 90, Fin (- 90), Fin 90]]\<rparr>"
  by (simp add: make_bounds_def effective_ny_def grid22_def lat_def lon_def
      vertices_latitude_def vertices_longitude_def corner_mesh_def isel_vertices_def
      isel_i_last_def isel_last_def concat_i_def slice0_def Let_def drop_lon_lat_def
      where_gt_m90_def where_lt_90_def fgt_def)

lemma slice0_take: "0 \<le> n \<Longrightarrow> slice0 n xs = take (nat n) xs"
  by (simp add: slice0_def)

section \<open>Lemmas on mk_outgrid\<close>

lemma edges_Inr_iff:
  "edges bnds = Inr e \<longleftrightarrow>
     bnds \<noteq> [] \<and> list_all (\<lambda>pair. 0 < length pair) bnds \<and> 1 < length (last bnds) \<and>
     e = map (\<lambda>pair. pair ! 0) bnds @ [last bnds ! 1]"
  by (auto simp: edges_def isel_bnds_def isel_last_def isel_at_def then_do_eq_Inr
      split: if_splits)

lemma edges_edge_vector:
  assumes "edges bnds = Inr e"
  shows "edge_vector bnds e"
proof -
  from assms have n: "bnds \<noteq> []"
    and e: "e = map (\<lambda>pair. pair ! 0) bnds @ [last bnds ! 1]"
    unfolding edges_Inr_iff by simp_all
  from n show ?thesis unfolding e
    by (auto simp: edge_vector_def nth_append last_conv_nth)
qed

lemma mk_outgrid_Inr_iff:
  "mk_outgrid ds = Inr g \<longleftrightarrow>
     \<not> bnds_is_coord ds \<and>
     (\<exists>lat_b1 lon_b1. edges (lat_bnds ds) = Inr lat_b1 \<and> edges (lon_bnds ds) = Inr lon_b1 \<and>
        g = \<lparr>out_lon = t_lon ds, out_lat = t_lat ds, lon_b = lon_b1, lat_b = lat_b1\<rparr>)"
  by (auto simp: mk_outgrid_def Let_def then_do_eq_Inr)


text \<open>With a coordinate for \<open>bnds\<close> the call cannot return: the merge of line 76 fails.\<close>

lemma mk_outgrid_bnds_coord:
  assumes "bnds_is_coord ds"
  shows "\<exists>e. mk_outgrid ds = Inl e"
    and "edges (lat_bnds ds) = Inr lat_b1 \<Longrightarrow> edges (lon_bnds ds) = Inr lon_b1 \<Longrightarrow>
      mk_outgrid ds = Inl MergeError"
  using assms by (auto simp: mk_outgrid_def then_do_def split: sum.splits)



lemma mk_outgrid_target_ok:
  "mk_outgrid target_ok =
     Inr \<lparr>out_lon = [Fin 90, Fin 270], out_lat = [Fin (- 45), Fin 45],
          lon_b = [Fin 0, Fin 180, Fin 360], lat_b = [Fin (- 90), Fin 0, Fin 90]\<rparr>"
  by (simp add: mk_outgrid_def edges_def isel_bnds_def isel_last_def isel_at_def target_ok_def
      t_lat_def t_lon_def lat_bnds_def lon_bnds_def)


section \<open>Lemmas on consistent_naming\<close>

lemma rename_Inr_names:
  assumes "rename old new ds = Inr ds'"
  shows "coord_names ds' = map (subst_name old new) (coord_names ds)"
    and "dims ds' = map (subst_name old new) (dims ds)"
  using assms
  by (auto simp: rename_def Let_def dims_def map_concat o_def split: if_splits)

lemma subst_name_removes: "old \<noteq> new \<Longrightarrow> old \<notin> set (map (subst_name old new) xs)"
  by (auto simp: subst_name_def)

lemma subst_name_keeps_out:
  "n \<noteq> new \<Longrightarrow> n \<notin> set xs \<Longrightarrow> n \<notin> set (map (subst_name old new) xs)"
  by (auto simp: subst_name_def)

lemma subst_name_keeps_in:
  "n \<noteq> old \<Longrightarrow> n \<in> set xs \<Longrightarrow> n \<in> set (map (subst_name old new) xs)"
  by (auto simp: subst_name_def image_iff)

lemma step_dims_out:
  assumes "(if c then rename old new ds else Inr ds) = Inr ds'"
    and "n \<noteq> new" and "n \<notin> set (dims ds)"
  shows "n \<notin> set (dims ds')"
  using assms rename_Inr_names(2) [of old new ds ds'] subst_name_keeps_out [of n new "dims ds" old]
  by (auto split: if_splits)

lemma step_coords_out:
  assumes "(if c then rename old new ds else Inr ds) = Inr ds'"
    and "n \<noteq> new" and "n \<notin> set (coord_names ds)"
  shows "n \<notin> set (coord_names ds')"
  using assms rename_Inr_names(1) [of old new ds ds']
    subst_name_keeps_out [of n new "coord_names ds" old]
  by (auto split: if_splits)

lemma step_coords_in:
  assumes "(if c then rename old new ds else Inr ds) = Inr ds'"
    and "n \<noteq> old" and "n \<in> set (coord_names ds)"
  shows "n \<in> set (coord_names ds')"
  using assms rename_Inr_names(1) [of old new ds ds']
    subst_name_keeps_in [of n old "coord_names ds" new]
  by (auto split: if_splits)

lemma step_dims_done:
  assumes "(if old \<in> set (dims ds) then rename old new ds else Inr ds) = Inr ds'"
    and "old \<noteq> new"
  shows "old \<notin> set (dims ds')"
  using assms rename_Inr_names(2) [of old new ds ds'] subst_name_removes [of old new "dims ds"]
  by (auto split: if_splits)

lemma step_coords_done:
  assumes "(if old \<in> set (coord_names ds) \<and> new \<notin> set (coord_names ds)
            then rename old new ds else Inr ds) = Inr ds'"
    and "old \<noteq> new"
  shows "old \<notin> set (coord_names ds') \<or> new \<in> set (coord_names ds')"
  using assms rename_Inr_names(1) [of old new ds ds']
    subst_name_removes [of old new "coord_names ds"]
  by (auto split: if_splits)

lemma canonical_fixed: "canonical ds \<Longrightarrow> consistent_naming ds = Inr ds"
  by (auto simp: canonical_def consistent_naming_def)

lemma consistent_naming_canonical:
  assumes "consistent_naming ds0 = Inr ds7"
  shows "canonical ds7"
proof -
  from assms obtain ds1 ds2 ds3 ds4 ds5 ds6
    where s1: "(if ''latitude'' \<in> set (coord_names ds0) \<and> ''lat'' \<notin> set (coord_names ds0)
              then rename ''latitude'' ''lat'' ds0 else Inr ds0) = Inr ds1"
      and s2: "(if ''longitude'' \<in> set (coord_names ds1) \<and> ''lon'' \<notin> set (coord_names ds1)
              then rename ''longitude'' ''lon'' ds1 else Inr ds1) = Inr ds2"
      and s3: "(if ''region'' \<in> set (dims ds2)
              then rename ''region'' ''basin'' ds2 else Inr ds2) = Inr ds3"
      and s4: "(if ''x'' \<in> set (dims ds3) then rename ''x'' ''i'' ds3 else Inr ds3) = Inr ds4"
      and s5: "(if ''y'' \<in> set (dims ds4) then rename ''y'' ''j'' ds4 else Inr ds4) = Inr ds5"
      and s6: "(if ''depth'' \<in> set (dims ds5)
              then rename ''depth'' ''lev'' ds5 else Inr ds5) = Inr ds6"
      and s7: "(if ''bounds'' \<in> set (dims ds6)
              then rename ''bounds'' ''bnds'' ds6 else Inr ds6) = Inr ds7"
    unfolding consistent_naming_def then_do_eq_Inr by blast
  have lat: "''latitude'' \<notin> set (coord_names ds7) \<or> ''lat'' \<in> set (coord_names ds7)"
  proof -
    from step_coords_done [OF s1] have "''latitude'' \<notin> set (coord_names ds1) \<or>
        ''lat'' \<in> set (coord_names ds1)" by simp
    then show ?thesis
    proof
      assume "''latitude'' \<notin> set (coord_names ds1)"
      then have "''latitude'' \<notin> set (coord_names ds7)"
        using step_coords_out [OF s2, of "''latitude''"] step_coords_out [OF s3, of "''latitude''"]
          step_coords_out [OF s4, of "''latitude''"] step_coords_out [OF s5, of "''latitude''"]
          step_coords_out [OF s6, of "''latitude''"] step_coords_out [OF s7, of "''latitude''"]
        by simp
      then show ?thesis ..
    next
      assume "''lat'' \<in> set (coord_names ds1)"
      then have "''lat'' \<in> set (coord_names ds7)"
        using step_coords_in [OF s2, of "''lat''"] step_coords_in [OF s3, of "''lat''"]
          step_coords_in [OF s4, of "''lat''"] step_coords_in [OF s5, of "''lat''"]
          step_coords_in [OF s6, of "''lat''"] step_coords_in [OF s7, of "''lat''"]
        by simp
      then show ?thesis ..
    qed
  qed
  have lon: "''longitude'' \<notin> set (coord_names ds7) \<or> ''lon'' \<in> set (coord_names ds7)"
  proof -
    from step_coords_done [OF s2] have "''longitude'' \<notin> set (coord_names ds2) \<or>
        ''lon'' \<in> set (coord_names ds2)" by simp
    then show ?thesis
    proof
      assume "''longitude'' \<notin> set (coord_names ds2)"
      then have "''longitude'' \<notin> set (coord_names ds7)"
        using step_coords_out [OF s3, of "''longitude''"]
          step_coords_out [OF s4, of "''longitude''"] step_coords_out [OF s5, of "''longitude''"]
          step_coords_out [OF s6, of "''longitude''"] step_coords_out [OF s7, of "''longitude''"]
        by simp
      then show ?thesis ..
    next
      assume "''lon'' \<in> set (coord_names ds2)"
      then have "''lon'' \<in> set (coord_names ds7)"
        using step_coords_in [OF s3, of "''lon''"]
          step_coords_in [OF s4, of "''lon''"] step_coords_in [OF s5, of "''lon''"]
          step_coords_in [OF s6, of "''lon''"] step_coords_in [OF s7, of "''lon''"]
        by simp
      then show ?thesis ..
    qed
  qed
  have region: "''region'' \<notin> set (dims ds7)"
    using step_dims_done [OF s3] step_dims_out [OF s4, of "''region''"]
      step_dims_out [OF s5, of "''region''"] step_dims_out [OF s6, of "''region''"]
      step_dims_out [OF s7, of "''region''"] by simp
  have x: "''x'' \<notin> set (dims ds7)"
    using step_dims_done [OF s4] step_dims_out [OF s5, of "''x''"]
      step_dims_out [OF s6, of "''x''"] step_dims_out [OF s7, of "''x''"] by simp
  have y: "''y'' \<notin> set (dims ds7)"
    using step_dims_done [OF s5] step_dims_out [OF s6, of "''y''"]
      step_dims_out [OF s7, of "''y''"] by simp
  have depth: "''depth'' \<notin> set (dims ds7)"
    using step_dims_done [OF s6] step_dims_out [OF s7, of "''depth''"] by simp
  have bounds: "''bounds'' \<notin> set (dims ds7)"
    using step_dims_done [OF s7] by simp
  from lat lon region x y depth bounds show ?thesis
    unfolding canonical_def by blast
qed

lemma consistent_naming_ds_raw: "consistent_naming ds_raw = Inr ds_cmor"
  by (simp add: consistent_naming_def ds_raw_def ds_cmor_def rename_def dims_def var_names_def
      subst_name_def Let_def)

lemma canonical_ds_cmor: "canonical ds_cmor"
  by (simp add: canonical_def ds_cmor_def dims_def)

section \<open>Lemmas on volumeavg_ocn\<close>

lemma no_sigma_fails:
  assumes "''sigma'' \<notin> set (coord_names ds)"
  shows "\<exists>e. volumeavg_ocn ops ds dp pweight cmor = Inl e"
  using assms
  by (auto simp: volumeavg_ocn_def then_do_def store_attr_def
      split: sum.splits option.splits)

lemma no_sigma_unbound:
  assumes "''sigma'' \<notin> set (coord_names ds)"
    and "pweight = Some w \<or> get_areacello ops cmor = Inr w"
    and "\<forall>n. map_of (attrs ds) ''long_name'' \<noteq> Some (ANum n)"
  shows "volumeavg_ocn ops ds dp pweight cmor = Inl (UnboundLocalError ''ds_out'')"
  using assms
  by (auto simp: volumeavg_ocn_def then_do_def store_attr_def str_add_def
      split: sum.splits option.splits attr.splits)

lemma no_sigma_areacello:
  assumes "''sigma'' \<notin> set (coord_names ds)"
    and "pweight = None" and "get_areacello ops cmor = Inl e"
  shows "volumeavg_ocn ops ds dp pweight cmor = Inl e"
  using assms by (simp add: volumeavg_ocn_def)

lemma no_sigma_type_error:
  assumes "''sigma'' \<notin> set (coord_names ds)"
    and "pweight = Some w \<or> get_areacello ops cmor = Inr w"
    and "map_of (attrs ds) ''long_name'' = Some (ANum n)"
  shows "volumeavg_ocn ops ds dp pweight cmor = Inl TypeError"
  using assms
  by (auto simp: volumeavg_ocn_def then_do_def str_add_def split: sum.splits option.splits)

section \<open>The claims of the specification\<close>

subsection \<open>Grid geometry: make_bounds\<close>

text \<open>
  Claim C1, as stated, fails: for \<open>NorESM2-LM\<close> and 385 rows, with \<open>seaice\<close> false the
  geometry keeps all 385 centre rows (and has 386 corner rows), and with \<open>seaice\<close> true
  it has 384 centre rows (and 385 corner rows). The code trims for sea ice, not for the
  other variables.
\<close>

theorem make_bounds_drops_row_counterexample:
  "make_bounds ''NorESM2-LM'' ds385 False =
     Inr \<lparr>lon_model = replicate 385 [Fin 0, Fin 0], lat_model = replicate 385 [Fin 0, Fin 0],
          lon_b_model = replicate 385 [Fin 0, Fin 0, Fin 1] @ [[Fin 0, Fin 0, Fin 1]],
          lat_b_model = replicate 385 [Fin 0, Fin 0, Fin 0] @ [[Fin 1, Fin 1, Fin 1]]\<rparr> \<and>
   make_bounds ''NorESM2-LM'' ds385 True =
     Inr \<lparr>lon_model = replicate 384 [Fin 0, Fin 0], lat_model = replicate 384 [Fin 0, Fin 0],
          lon_b_model = replicate 385 [Fin 0, Fin 0, Fin 1],
          lat_b_model = replicate 385 [Fin 0, Fin 0, Fin 0]\<rparr>"
  by (simp add: make_bounds_def effective_ny_def ds385_def lat_def lon_def
      vertices_latitude_def vertices_longitude_def corner_mesh_def isel_vertices_def
      isel_i_last_def isel_last_def concat_i_def slice0_def list_all_iff Let_def
      map2_replicate where_gt_m90_def where_lt_90_def fgt_def)

text \<open>
  Claim C1, amended: for a well-formed grid of \<open>R\<close> rows of a model with a duplicated
  final row (\<open>NorESM2-LM\<close>, \<open>NorESM2-MM\<close>), a call of \<open>make_bounds\<close> that returns has
  dropped the last row when \<open>seaice\<close> is true: the centres are the centres of the dataset
  without their last row (\<open>R - 1\<close> rows) and the corners are the assembled mesh without
  its last row (\<open>R\<close> rows), the latitudes clamped. When \<open>seaice\<close> is false nothing is
  dropped: the centres are those of the dataset (\<open>R\<close> rows) and the corners the whole
  mesh (\<open>R + 1\<close> rows).
\<close>

theorem make_bounds_row_trimming:
  assumes ret: "make_bounds modelname ds seaice = Inr g"
    and wf: "wf_grid R C ds"
    and m: "modelname \<in> set [''NorESM2-LM'', ''NorESM2-MM'']"
  shows "lat_model g = (if seaice then butlast (lat ds) else lat ds) \<and>
     lon_model g = (if seaice then butlast (lon ds) else lon ds) \<and>
     (\<exists>mlat mlon. corner_mesh (vertices_latitude ds) = Inr mlat \<and>
        corner_mesh (vertices_longitude ds) = Inr mlon \<and>
        lon_b_model g = (if seaice then butlast mlon else mlon) \<and>
        lat_b_model g = map (map where_gt_m90) (map (map where_lt_90)
           (if seaice then butlast mlat else mlat))) \<and>
     length (lat_model g) = (if seaice then R - 1 else R) \<and>
     length (lon_model g) = (if seaice then R - 1 else R) \<and>
     length (lat_b_model g) = (if seaice then R else R + 1) \<and>
     length (lon_b_model g) = (if seaice then R else R + 1)"
proof -
  let ?ny = "effective_ny modelname ds seaice"
  note s = wf_grid_shapes [OF wf]
  from s have R: "0 < R" and llat: "length (lat ds) = R" and llon: "length (lon ds) = R"
    by (simp_all add: has_shape2_def)
  from make_bounds_returned [OF ret wf] obtain mlat mlon
    where mlat: "corner_mesh (vertices_latitude ds) = Inr mlat"
      and mlon: "corner_mesh (vertices_longitude ds) = Inr mlon"
      and shlat: "has_shape2 (R + 1) (C + 1) mlat" and shlon: "has_shape2 (R + 1) (C + 1) mlon"
      and g: "lat_model g = slice0 ?ny (lat ds)" "lon_model g = slice0 ?ny (lon ds)"
        "lon_b_model g = slice0 (?ny + 1) mlon"
        "lat_b_model g = map (map where_gt_m90) (map (map where_lt_90) (slice0 (?ny + 1) mlat))"
    by blast
  from shlat shlon have lm: "length mlat = R + 1" "length mlon = R + 1"
    by (simp_all add: has_shape2_def)
  from m llat have ny: "?ny = (if seaice then int R - 1 else int R)"
    by (auto simp: effective_ny_def Let_def)
  have c: "slice0 ?ny (lat ds) = (if seaice then butlast (lat ds) else lat ds)"
    "slice0 ?ny (lon ds) = (if seaice then butlast (lon ds) else lon ds)"
    using R llat llon unfolding ny
    by (simp_all add: slice0_take butlast_conv_take nat_diff_distrib)
  have n1: "0 \<le> ?ny + 1" "nat (?ny + 1) = (if seaice then R else R + 1)"
    using R unfolding ny by auto
  have b: "slice0 (?ny + 1) mlon = (if seaice then butlast mlon else mlon)"
    "slice0 (?ny + 1) mlat = (if seaice then butlast mlat else mlat)"
    using lm by (simp_all add: slice0_take [OF n1(1)] n1(2) butlast_conv_take)
  from mlat mlon g c b R llat llon lm show ?thesis
    by (cases seaice) auto
qed

text \<open>
  The amended claim C1 on a grid of two rows: with \<open>seaice\<close> true the call returns one
  centre row, the first, and two corner rows.
\<close>

theorem make_bounds_row_trimming_witness:
  "wf_grid 2 2 grid22 \<and> ''NorESM2-LM'' \<in> set [''NorESM2-LM'', ''NorESM2-MM''] \<and>
   (\<exists>g. make_bounds ''NorESM2-LM'' grid22 True = Inr g \<and>
      g = \<lparr>lon_model = [[Fin 5, Fin 15]], lat_model = [[Fin 10, Fin 10]],
          lon_b_model = [[Fin 0, Fin 10, Fin 20], [Fin 0, Fin 10, Fin 20]],
          lat_b_model = [[Fin 0, Fin 0, Fin 0], [Fin 20, Fin 20, Fin 20]]\<rparr> \<and>
      lat_model g = butlast (lat grid22) \<and> lon_model g = butlast (lon grid22) \<and>
      length (lat_model g) = 1 \<and> length (lon_model g) = 1 \<and>
      length (lat_b_model g) = 2 \<and> length (lon_b_model g) = 2)"
proof -
  have m: "''NorESM2-LM'' \<in> set [''NorESM2-LM'', ''NorESM2-MM'']" by simp
  from make_bounds_row_trimming [OF make_bounds_grid22_LM_seaice wf_grid22 m]
    make_bounds_grid22_LM_seaice wf_grid22 m
  show ?thesis by (simp add: grid22_def lat_def lon_def)
qed

text \<open>
  Claim C2: in a call of \<open>make_bounds\<close> on a well-formed grid that returns, both corner
  arrays are assembled from the vertex arrays as the specification says (vertex 0 of
  every cell, a last column from vertex 1 of the last column, a last row from vertex 3 of
  the last row and vertex 2 of its last cell). The returned longitude corners are the
  first \<open>ny + 1\<close> rows of that mesh and the returned latitude corners the same rows,
  clamped; when no row is trimmed they are the whole mesh.
\<close>

theorem make_bounds_corner_assembly:
  assumes ret: "make_bounds modelname ds seaice = Inr g"
    and wf: "wf_grid R C ds"
  shows "\<exists>mlat mlon.
     corner_mesh (vertices_latitude ds) = Inr mlat \<and>
     assembled R C (vertices_latitude ds) mlat \<and>
     corner_mesh (vertices_longitude ds) = Inr mlon \<and>
     assembled R C (vertices_longitude ds) mlon \<and>
     lon_b_model g = slice0 (effective_ny modelname ds seaice + 1) mlon \<and>
     lat_b_model g = map (map where_gt_m90) (map (map where_lt_90)
        (slice0 (effective_ny modelname ds seaice + 1) mlat)) \<and>
     (effective_ny modelname ds seaice = int R \<longrightarrow>
        lon_b_model g = mlon \<and>
        lat_b_model g = map (map where_gt_m90) (map (map where_lt_90) mlat))"
proof -
  from make_bounds_returned [OF ret wf] obtain mlat mlon
    where mlat: "corner_mesh (vertices_latitude ds) = Inr mlat"
      and mlon: "corner_mesh (vertices_longitude ds) = Inr mlon"
      and alat: "assembled R C (vertices_latitude ds) mlat"
      and alon: "assembled R C (vertices_longitude ds) mlon"
      and shlat: "has_shape2 (R + 1) (C + 1) mlat" and shlon: "has_shape2 (R + 1) (C + 1) mlon"
      and g: "lon_b_model g = slice0 (effective_ny modelname ds seaice + 1) mlon"
        "lat_b_model g = map (map where_gt_m90) (map (map where_lt_90)
           (slice0 (effective_ny modelname ds seaice + 1) mlat))"
    by blast
  have full: "slice0 (int R + 1) mlon = mlon" "slice0 (int R + 1) mlat = mlat"
    using shlon shlat by (simp_all add: slice0_def has_shape2_def)
  show ?thesis
    using mlon mlat alon alat full g by auto
qed

text \<open>
  Claim C2 on the grid of two rows and two columns, for a model without trimming: the
  call returns, and the returned longitude corners are the assembled mesh.
\<close>

theorem make_bounds_corner_assembly_witness:
  "wf_grid 2 2 grid22 \<and>
   (\<exists>g mlat mlon. make_bounds ''CESM2'' grid22 False = Inr g \<and>
     corner_mesh (vertices_latitude grid22) = Inr mlat \<and>
     mlat = [[Fin 0, Fin 0, Fin 0], [Fin 20, Fin 20, Fin 20], [Fin 93, Fin (- 95), NaN]] \<and>
     corner_mesh (vertices_longitude grid22) = Inr mlon \<and>
     mlon = [[Fin 0, Fin 10, Fin 20], [Fin 0, Fin 10, Fin 20], [Fin 0, Fin 10, Fin 20]] \<and>
     assembled 2 2 (vertices_latitude grid22) mlat \<and>
     assembled 2 2 (vertices_longitude grid22) mlon \<and>
     lon_b_model g = mlon)"
proof -
  have n: "effective_ny ''CESM2'' grid22 False = int 2"
    by (simp add: effective_ny_def grid22_def lat_def)
  from make_bounds_corner_assembly [OF make_bounds_grid22_CESM2 wf_grid22] n
    corner_mesh_lat_grid22 corner_mesh_lon_grid22 make_bounds_grid22_CESM2 wf_grid22
  show ?thesis by auto
qed

text \<open>
  Claim C3: a call of \<open>make_bounds\<close> on a well-formed grid of \<open>C\<close> columns that returns
  has returned centre arrays of the effective shape \<open>(R', C)\<close>, where \<open>R'\<close> is the row
  count after trimming, and corner arrays of shape \<open>(R' + 1, C + 1)\<close>, for latitude and
  longitude.
\<close>

theorem make_bounds_corner_shape:
  assumes "make_bounds modelname ds seaice = Inr g"
    and "wf_grid R C ds"
  shows "int (length (lat_model g)) = effective_ny modelname ds seaice \<and>
     has_shape2 (length (lat_model g)) C (lat_model g) \<and>
     has_shape2 (length (lat_model g)) C (lon_model g) \<and>
     has_shape2 (length (lat_model g) + 1) (C + 1) (lat_b_model g) \<and>
     has_shape2 (length (lat_model g) + 1) (C + 1) (lon_b_model g)"
  using assms by (rule make_bounds_shapes)

text \<open>
  Claim C3 on the grid of two rows and two columns whose \<open>lat\<close> and \<open>lon\<close> are
  coordinates, with the last row trimmed: the call returns centres of shape \<open>(1, 2)\<close>
  and corners of shape \<open>(2, 3)\<close>.
\<close>

theorem make_bounds_corner_shape_witness:
  "wf_grid 2 2 grid22_coords \<and>
   (\<exists>g. make_bounds ''NorESM2-MM'' grid22_coords True = Inr g \<and>
     g = \<lparr>lon_model = [[Fin 5, Fin 15]], lat_model = [[Fin 10, Fin 10]],
          lon_b_model = [[Fin 0, Fin 10, Fin 20], [Fin 0, Fin 10, Fin 20]],
          lat_b_model = [[Fin 0, Fin 0, Fin 0], [Fin 20, Fin 20, Fin 20]]\<rparr> \<and>
     int (length (lat_model g)) = effective_ny ''NorESM2-MM'' grid22_coords True \<and>
     length (lat_model g) = 1 \<and>
     has_shape2 1 2 (lat_model g) \<and> has_shape2 1 2 (lon_model g) \<and>
     has_shape2 2 3 (lat_b_model g) \<and> has_shape2 2 3 (lon_b_model g))"
  using make_bounds_corner_shape [OF make_bounds_grid22_coords_MM_seaice wf_grid22_coords]
    make_bounds_grid22_coords_MM_seaice wf_grid22_coords
  by (simp add: has_shape2_def)

text \<open>
  Claim C4: whenever \<open>make_bounds\<close> returns, every corner latitude of the result is a
  number in \<open>[-90, 90]\<close>; it is 90 where the unclamped corner was above 90, -90 where it
  was below -90, and the unclamped corner itself where that was strictly between -90 and
  90. The unclamped corners are the first \<open>ny + 1\<close> rows of the assembled mesh.
\<close>

theorem make_bounds_polar_clamp:
  assumes "make_bounds modelname ds seaice = Inr g"
  shows "\<exists>raw. corner_mesh (vertices_latitude ds) = Inr raw \<and>
     length (lat_b_model g) = length (slice0 (effective_ny modelname ds seaice + 1) raw) \<and>
     (\<forall>r < length (lat_b_model g).
        length (lat_b_model g ! r) =
          length (slice0 (effective_ny modelname ds seaice + 1) raw ! r) \<and>
        (\<forall>c < length (lat_b_model g ! r).
           in_polar_range (lat_b_model g ! r ! c) \<and>
           (fgt (slice0 (effective_ny modelname ds seaice + 1) raw ! r ! c) (Fin 90) \<longrightarrow>
              lat_b_model g ! r ! c = Fin 90) \<and>
           (flt (slice0 (effective_ny modelname ds seaice + 1) raw ! r ! c) (Fin (- 90)) \<longrightarrow>
              lat_b_model g ! r ! c = Fin (- 90)) \<and>
           (fgt (slice0 (effective_ny modelname ds seaice + 1) raw ! r ! c) (Fin (- 90)) \<and>
            flt (slice0 (effective_ny modelname ds seaice + 1) raw ! r ! c) (Fin 90) \<longrightarrow>
              lat_b_model g ! r ! c = slice0 (effective_ny modelname ds seaice + 1) raw ! r ! c)))"
proof -
  from assms obtain mlon raw where raw: "corner_mesh (vertices_latitude ds) = Inr raw"
    and g: "lat_b_model g = map (map where_gt_m90) (map (map where_lt_90)
             (slice0 (effective_ny modelname ds seaice + 1) raw))"
    unfolding make_bounds_Inr_iff by auto
  show ?thesis
    using raw clamp_cases unfolding g by (intro exI [of _ raw]) simp
qed

text \<open>
  Claim C4 on the grid whose last corner row is 93, -95 and NaN before the clamp, and 90,
  -90 and 90 after it.
\<close>

theorem make_bounds_polar_clamp_witness:
  "make_bounds ''NorESM2-LM'' grid22 False =
     Inr \<lparr>lon_model = [[Fin 5, Fin 15], [Fin 5, Fin 15]],
          lat_model = [[Fin 10, Fin 10], [Fin 89, Fin 89]],
          lon_b_model = [[Fin 0, Fin 10, Fin 20], [Fin 0, Fin 10, Fin 20], [Fin 0, Fin 10, Fin 20]],
          lat_b_model = [[Fin 0, Fin 0, Fin 0], [Fin 20, Fin 20, Fin 20],
                         [Fin 90, Fin (- 90), Fin 90]]\<rparr> \<and>
   (\<exists>raw. corner_mesh (vertices_latitude grid22) = Inr raw \<and>
      raw ! 2 = [Fin 93, Fin (- 95), NaN] \<and>
      in_polar_range (Fin 90) \<and> in_polar_range (Fin (- 90)))"
proof -
  note h = make_bounds_grid22_LM
  from make_bounds_polar_clamp [OF h] obtain raw
    where raw: "corner_mesh (vertices_latitude grid22) = Inr raw" by blast
  note corner_mesh_lat_grid22
  with raw have "raw = [[Fin 0, Fin 0, Fin 0], [Fin 20, Fin 20, Fin 20], [Fin 93, Fin (- 95), NaN]]"
    by simp
  then have "raw ! 2 = [Fin 93, Fin (- 95), NaN]" by simp
  with raw h show ?thesis by (simp add: in_polar_range_def)
qed

subsection \<open>Target grid: mk_outgrid\<close>

text \<open>
  Claim C5: a call of \<open>mk_outgrid\<close> that returns has built, for latitude and for
  longitude, the edge vector of length \<open>N + 1\<close> of the \<open>N\<close> cells of the axis: bound 0
  of each cell, then bound 1 of the last cell. The centres are passed on unchanged.
\<close>

theorem mk_outgrid_edges:
  assumes "mk_outgrid ds = Inr g"
  shows "edge_vector (lat_bnds ds) (lat_b g) \<and> edge_vector (lon_bnds ds) (lon_b g) \<and>
     out_lat g = t_lat ds \<and> out_lon g = t_lon ds"
proof -
  from assms obtain lat_b1 lon_b1
    where "edges (lat_bnds ds) = Inr lat_b1" and "edges (lon_bnds ds) = Inr lon_b1"
      and "g = \<lparr>out_lon = t_lon ds, out_lat = t_lat ds, lon_b = lon_b1, lat_b = lat_b1\<rparr>"
    unfolding mk_outgrid_Inr_iff by blast
  then show ?thesis by (simp add: edges_edge_vector)
qed

text \<open>
  Claim C5 on a target grid of two cells per axis: the call returns the edges -90, 0, 90
  and 0, 180, 360.
\<close>

theorem mk_outgrid_edges_witness:
  "\<exists>g. mk_outgrid target_ok = Inr g \<and>
     g = \<lparr>out_lon = [Fin 90, Fin 270], out_lat = [Fin (- 45), Fin 45],
          lon_b = [Fin 0, Fin 180, Fin 360], lat_b = [Fin (- 90), Fin 0, Fin 90]\<rparr> \<and>
     edge_vector (lat_bnds target_ok) (lat_b g) \<and>
     edge_vector (lon_bnds target_ok) (lon_b g) \<and>
     out_lat g = t_lat target_ok \<and> out_lon g = t_lon target_ok"
  using mk_outgrid_edges [OF mk_outgrid_target_ok] mk_outgrid_target_ok
  by simp




subsection \<open>Errors of make_bounds and make_regridder\<close>




text \<open>
  Claim C8: with the globals of its module, every call of \<open>make_regridder\<close> fails with
  the \<open>NameError\<close> of \<open>modelname\<close>, whatever its arguments and whatever \<open>xe.Regridder\<close>
  would do: the name is read before \<open>make_bounds\<close> and the regridder are called.
\<close>

theorem make_regridder_unbound_modelname:
  "make_regridder module_globals Regridder ds outgrid grid_weight_path regrid_mode reuse_weights
     = Inl (NameError ''modelname'')"
  by (simp add: make_regridder_def load_global_def module_globals_def)

subsection \<open>Naming and volume averages\<close>

text \<open>
  Claim C9: \<open>consistent_naming\<close> is idempotent. Applying it to its own result gives that
  result again, an exception of the first call included; a dataset it returns is returned
  unchanged by a second call; and a dataset that uses the canonical names already is
  returned unchanged.
\<close>

theorem consistent_naming_idempotent:
  "then_do (consistent_naming ds) consistent_naming = consistent_naming ds \<and>
   (\<forall>ds'. consistent_naming ds = Inr ds' \<longrightarrow> consistent_naming ds' = Inr ds') \<and>
   (canonical ds \<longrightarrow> consistent_naming ds = Inr ds)"
proof (intro conjI allI impI)
  show "then_do (consistent_naming ds) consistent_naming = consistent_naming ds"
  proof (cases "consistent_naming ds")
    case (Inl e)
    then show ?thesis by simp
  next
    case (Inr ds')
    from canonical_fixed [OF consistent_naming_canonical [OF Inr]] Inr
    show ?thesis by simp
  qed
next
  fix ds' assume "consistent_naming ds = Inr ds'"
  then show "consistent_naming ds' = Inr ds'"
    by (rule canonical_fixed [OF consistent_naming_canonical])
next
  assume "canonical ds"
  then show "consistent_naming ds = Inr ds" by (rule canonical_fixed)
qed

text \<open>
  Claim C9 on a dataset with the raw names \<open>latitude\<close>, \<open>longitude\<close>, \<open>region\<close>,
  \<open>x\<close>, \<open>y\<close>, \<open>depth\<close> and \<open>bounds\<close>, and on its renamed form.
\<close>

theorem consistent_naming_idempotent_witness:
  "consistent_naming ds_raw = Inr ds_cmor \<and> consistent_naming ds_cmor = Inr ds_cmor \<and>
   then_do (consistent_naming ds_raw) consistent_naming = consistent_naming ds_raw \<and>
   canonical ds_cmor"
  using consistent_naming_idempotent [of ds_raw] consistent_naming_idempotent [of ds_cmor]
    consistent_naming_ds_raw canonical_ds_cmor
  by simp

text \<open>
  Claim C10, as stated, fails: for a field without a \<open>sigma\<close> coordinate the exception
  is not always the unbound local variable. Without a weight argument and without the
  area file, \<open>get_areacello\<close> raises first; and a \<open>long_name\<close> attribute that is a
  number raises a \<open>TypeError\<close> in the string concatenation, before \<open>ds_out\<close> is read.
\<close>

theorem volumeavg_ocn_no_sigma_counterexample:
  "''sigma'' \<notin> set (coord_names field_no_sigma) \<and>
   volumeavg_ocn no_files field_no_sigma weight_field None True =
     Inl (FileNotFoundError areacello_path) \<and>
   ''sigma'' \<notin> set (coord_names field_numeric_name) \<and>
   volumeavg_ocn no_files field_numeric_name weight_field (Some weight_field) True =
     Inl TypeError"
  by (simp add: volumeavg_ocn_def get_areacello_def no_files_def field_no_sigma_def
      field_numeric_name_def str_add_def)

text \<open>
  Claim C10, amended: for every field without a \<open>sigma\<close> coordinate \<open>volumeavg_ocn\<close>
  raises an exception and never returns a value. The exception is the
  \<open>UnboundLocalError\<close> of \<open>ds_out\<close> whenever the weights are available (passed as an
  argument, or loaded by \<open>get_areacello\<close>) and the \<open>long_name\<close> attribute, if there is
  one, is a string. Otherwise an earlier exception is raised: that of \<open>get_areacello\<close>
  when no weights are passed and it fails, and a \<open>TypeError\<close> when the weights are
  available and \<open>long_name\<close> is a number.
\<close>

theorem volumeavg_ocn_no_sigma:
  assumes "''sigma'' \<notin> set (coord_names ds)"
  shows "(\<exists>e. volumeavg_ocn ops ds dp pweight cmor = Inl e) \<and>
    ((pweight \<noteq> None \<or> (\<exists>w. get_areacello ops cmor = Inr w)) \<and>
     (\<forall>n. map_of (attrs ds) ''long_name'' \<noteq> Some (ANum n)) \<longrightarrow>
       volumeavg_ocn ops ds dp pweight cmor = Inl (UnboundLocalError ''ds_out'')) \<and>
    (\<forall>e. pweight = None \<and> get_areacello ops cmor = Inl e \<longrightarrow>
       volumeavg_ocn ops ds dp pweight cmor = Inl e) \<and>
    (\<forall>n. (pweight \<noteq> None \<or> (\<exists>w. get_areacello ops cmor = Inr w)) \<and>
       map_of (attrs ds) ''long_name'' = Some (ANum n) \<longrightarrow>
       volumeavg_ocn ops ds dp pweight cmor = Inl TypeError)"
proof (intro conjI impI allI)
  show "\<exists>e. volumeavg_ocn ops ds dp pweight cmor = Inl e"
    by (rule no_sigma_fails [OF assms])
next
  assume a: "(pweight \<noteq> None \<or> (\<exists>w. get_areacello ops cmor = Inr w)) \<and>
     (\<forall>n. map_of (attrs ds) ''long_name'' \<noteq> Some (ANum n))"
  then obtain w where "pweight = Some w \<or> get_areacello ops cmor = Inr w" by auto
  from no_sigma_unbound [OF assms this] a
  show "volumeavg_ocn ops ds dp pweight cmor = Inl (UnboundLocalError ''ds_out'')" by simp
next
  fix e assume "pweight = None \<and> get_areacello ops cmor = Inl e"
  then show "volumeavg_ocn ops ds dp pweight cmor = Inl e"
    using no_sigma_areacello [OF assms] by simp
next
  fix n assume a: "(pweight \<noteq> None \<or> (\<exists>w. get_areacello ops cmor = Inr w)) \<and>
       map_of (attrs ds) ''long_name'' = Some (ANum n)"
  then obtain w where "pweight = Some w \<or> get_areacello ops cmor = Inr w" by auto
  from no_sigma_type_error [OF assms this] a
  show "volumeavg_ocn ops ds dp pweight cmor = Inl TypeError" by simp
qed

text \<open>
  The amended claim C10 on a field without \<open>sigma\<close>: with the weights passed, with the
  weights missing, and with a numeric \<open>long_name\<close>.
\<close>

theorem volumeavg_ocn_no_sigma_witness:
  "''sigma'' \<notin> set (coord_names field_no_sigma) \<and>
   map_of (attrs field_no_sigma) ''long_name'' = Some (AStr ''Sea Water Potential Temperature'') \<and>
   volumeavg_ocn no_files field_no_sigma weight_field (Some weight_field) True =
     Inl (UnboundLocalError ''ds_out'') \<and>
   (\<exists>e. volumeavg_ocn no_files field_no_sigma weight_field None False = Inl e) \<and>
   get_areacello no_files False = Inl (FileNotFoundError grid_path) \<and>
   volumeavg_ocn no_files field_no_sigma weight_field None False =
     Inl (FileNotFoundError grid_path) \<and>
   ''sigma'' \<notin> set (coord_names field_numeric_name) \<and>
   map_of (attrs field_numeric_name) ''long_name'' = Some (ANum 7) \<and>
   volumeavg_ocn no_files field_numeric_name weight_field (Some weight_field) True =
     Inl TypeError"
proof -
  have s: "''sigma'' \<notin> set (coord_names field_no_sigma)"
    "''sigma'' \<notin> set (coord_names field_numeric_name)"
    by (simp_all add: field_no_sigma_def field_numeric_name_def)
  have l: "map_of (attrs field_no_sigma) ''long_name'' = Some (AStr ''Sea Water Potential Temperature'')"
    "map_of (attrs field_numeric_name) ''long_name'' = Some (ANum 7)"
    by (simp_all add: field_no_sigma_def field_numeric_name_def)
  have a: "get_areacello no_files False = Inl (FileNotFoundError grid_path)"
    by (simp add: get_areacello_def no_files_def)
  from volumeavg_ocn_no_sigma [OF s(1), of no_files weight_field "Some weight_field" True]
    volumeavg_ocn_no_sigma [OF s(1), of no_files weight_field None False]
    volumeavg_ocn_no_sigma [OF s(2), of no_files weight_field "Some weight_field" True]
    s l a
  show ?thesis by simp
qed

end
